theory Spec2Isabelle
  imports Complex_Main
begin

section \<open>Data model of compute\_results.py\<close>

text \<open>
  The script reads Oscar 2013 particle lists and accumulates, per hadron species, the
  yields and the flow sums in rapidity bins and in transverse-momentum bins.

  Numbers: the script computes in numpy float64. The model computes in \<open>real\<close>, so
  rounding, overflow to infinity and NaN are not represented; the event counters
  (numpy int64 and Python int) are \<open>nat\<close>, since they only ever grow by one per
  end-of-event line and cannot reach \<open>2^63\<close> on a finite file.

  Lines: every line is given as its list of tokens, that is, as the value of
  \<open>iline.split()\<close>. A file is the list of its lines, or \<open>None\<close> when it cannot be
  opened for reading.

  Left out: the printed messages (warnings and progress lines), the parsing of the
  command line, the renaming of an output file that already exists and the failures
  of writing the pickle.
\<close>

subsection \<open>Failures\<close>

text \<open>
  The script stops either through \<open>sys.exit(n)\<close> or through an exception that
  nothing catches (there is no \<open>try\<close> in the file). An uncaught exception ends
  the Python process with status 1.
\<close>

datatype exn = IndexError | ValueError | OSError | OverflowError

datatype halt = SysExit nat | Uncaught exn

fun exit_status :: "halt \<Rightarrow> nat" where
  "exit_status (SysExit n) = n"
| "exit_status (Uncaught e) = 1"

subsection \<open>Histograms\<close>

text \<open>
  A histogram is a numpy array of shape \<open>(nh, ny, 3)\<close> or \<open>(nh, npT, 3)\<close>: it is
  modelled by its entries, indexed by (hadron index, bin index, observable). Every
  write of the script is guarded by the range test on the bin index, the hadron index
  comes from the registry and the observable index is one of the three constants, so
  no access falls outside the shape.
\<close>

type_synonym hist = "nat \<times> nat \<times> nat \<Rightarrow> real"

definition dN_idx :: nat where "dN_idx = 0"
definition v1_idx :: nat where "v1_idx = 1"
definition v2_idx :: nat where "v2_idx = 2"

definition zeros :: hist where
  "zeros = (\<lambda>k. 0)"

definition hist_add :: "hist \<Rightarrow> hist \<Rightarrow> hist" where
  \<comment> \<open>\<open>a += b\<close> on arrays of one shape\<close>
  "hist_add a b = (\<lambda>k. a k + b k)"

definition fill_bin :: "hist \<Rightarrow> nat \<Rightarrow> nat \<Rightarrow> real \<Rightarrow> real \<Rightarrow> hist" where
  \<comment> \<open>the three \<open>+=\<close> of an accepted particle, in the order of the source\<close>
  "fill_bin h hadron_index bin_index v1 v2 =
     (let h1 = h((hadron_index, bin_index, dN_idx) := h (hadron_index, bin_index, dN_idx) + 1);
          h2 = h1((hadron_index, bin_index, v1_idx) := h1 (hadron_index, bin_index, v1_idx) + v1);
          h3 = h2((hadron_index, bin_index, v2_idx) := h2 (hadron_index, bin_index, v2_idx) + v2)
      in h3)"

subsection \<open>Hadron registry\<close>

definition hadrons :: "(string \<times> nat \<times> string) list" where
  "hadrons =
    [(''211'', 0, ''pion_plus''),
     (''-211'', 1, ''pion_minus''),
     (''111'', 2, ''pion_0''),
     (''321'', 3, ''kaon_plus''),
     (''-321'', 4, ''kaon_minus''),
     (''2212'', 5, ''proton''),
     (''-2212'', 6, ''anti-proton''),
     (''2112'', 7, ''neutron''),
     (''-2112'', 8, ''anti-neutron'')]"

definition nh :: nat where
  "nh = length hadrons"

subsection \<open>Format selection\<close>

record format =
  pdg_idx :: nat
  mom_start :: nat
  mom_end :: nat
  event_name_identifier :: string
  event_start_identifier :: string
  event_end_identifier :: string

definition smash_format :: format where
  "smash_format = \<lparr>pdg_idx = 9, mom_start = 5, mom_end = 5 + 4,
     event_name_identifier = ''event'', event_start_identifier = ''out'',
     event_end_identifier = ''end''\<rparr>"

definition bhac_format :: format where
  "bhac_format = \<lparr>pdg_idx = 8, mom_start = 4, mom_end = 4 + 4,
     event_name_identifier = ''Event'', event_start_identifier = ''start'',
     event_end_identifier = ''end''\<rparr>"

definition select_format :: "string \<Rightarrow> halt + format" where
  "select_format type =
     (if type = ''SMASH'' then Inr smash_format
      else if type = ''BHAC-QGP'' then Inr bhac_format
      else Inl (SysExit 1))"

subsection \<open>Module constants and the environment of the file reader\<close>

definition rap_cut :: real where "rap_cut = 1000"
definition pT_min_cut :: real where "pT_min_cut = 0"
definition pT_max_cut :: real where "pT_max_cut = 1000"
definition rap_resolution :: real where "rap_resolution = 2 / 10"
definition max_rapidity :: real where "max_rapidity = 51 / 10"
definition pT_resolution :: real where "pT_resolution = 1 / 10"
definition max_pT :: real where "max_pT = 4"

text \<open>
  \<open>ny = int(2*max_rapidity/dy) + 1\<close> and \<open>npT = int(max_pT/pT_resolution)\<close> are
  computed by the script in float64, where \<open>2*5.1/0.2\<close> is \<open>50.99999999999999\<close> and
  \<open>4/0.1\<close> is \<open>40.0\<close>: the script runs with 51 rapidity bins and 40 pT bins. The
  two numbers are written down as the script obtains them.
\<close>

definition ny_default :: nat where "ny_default = 51"
definition npT_default :: nat where "npT_default = 40"

text \<open>
  What \<open>extract_data_oscar\<close> reads from the module besides its arguments: the format
  globals, the three cuts, the two axis lengths, and numpy's conversion of a token to
  float64 (\<open>None\<close> when numpy raises ValueError).
\<close>

record env =
  np_float64 :: "string \<Rightarrow> real option"
  fmt :: format
  cut_rap :: real
  cut_pT_min :: real
  cut_pT_max :: real
  ny :: nat
  npT :: nat

definition linspace :: "real \<Rightarrow> real \<Rightarrow> nat \<Rightarrow> real list" where
  \<comment> \<open>\<open>np.linspace(start, stop, num)\<close>, end point included\<close>
  "linspace start stop num =
     map (\<lambda>i. start + real i * ((stop - start) / real (num - 1))) [0..<num]"

subsection \<open>State of one file\<close>

record fstate =
  unfinished_event :: bool
  events_in_file :: nat
  y_spectra_event :: hist
  pT_spectra_event :: hist
  y_spectra_file :: hist
  pT_spectra_file :: hist

definition init_fstate :: fstate where
  "init_fstate = \<lparr>unfinished_event = False, events_in_file = 0,
     y_spectra_event = zeros, pT_spectra_event = zeros,
     y_spectra_file = zeros, pT_spectra_file = zeros\<rparr>"

section \<open>The file reader\<close>

definition commit_event :: "fstate \<Rightarrow> fstate" where
  \<comment> \<open>lines 146 to 151: the end label of an open event\<close>
  "commit_event st =
     st\<lparr>unfinished_event := False,
        events_in_file := events_in_file st + 1,
        y_spectra_file := hist_add (y_spectra_file st) (y_spectra_event st),
        y_spectra_event := zeros,
        pT_spectra_file := hist_add (pT_spectra_file st) (pT_spectra_event st),
        pT_spectra_event := zeros\<rparr>"

definition comment_line :: "env \<Rightarrow> fstate \<Rightarrow> string list \<Rightarrow> halt + fstate" where
  \<comment> \<open>lines 141 to 160: a line whose first character is \<open>#\<close>\<close>
  "comment_line E st line =
     (if length line \<le> 1 then Inl (Uncaught IndexError)
      else if line ! 1 = event_name_identifier (fmt E) then
        (if length line \<le> 3 then Inl (Uncaught IndexError)
         else if line ! 3 = event_start_identifier (fmt E) then
           Inr (st\<lparr>unfinished_event := True\<rparr>)
         else if line ! 3 = event_end_identifier (fmt E) then
           (if unfinished_event st then Inr (commit_event st)
            else Inl (SysExit 1))
         else Inl (SysExit 1))
      else Inr st)"

text \<open>
  The binning of one particle. The two bin widths are arguments of the reader; the
  script only ever passes 0.2 and 0.1. For a width of zero the numerator, a numpy
  float64, is divided to infinity or to NaN without an exception, and \<open>math.floor\<close>
  then raises OverflowError or ValueError: that is the outcome written here.
\<close>

definition bin_particle ::
  "env \<Rightarrow> real \<Rightarrow> real \<Rightarrow> real \<Rightarrow> real \<Rightarrow> nat \<Rightarrow> real \<Rightarrow> real \<Rightarrow> real \<Rightarrow> real \<Rightarrow> fstate
    \<Rightarrow> halt + fstate" where
  \<comment> \<open>lines 170 to 192\<close>
  "bin_particle E y_start pT_start dy dpT hadron_index p0 px py pz st =
     (if (p0 - pz) * (p0 + pz) \<le> 0 then Inr st
      else
        let rapidity = 0.5 * ln ((p0 + pz) / (p0 - pz));
            pT2 = px\<^sup>2 + py\<^sup>2
        in
        if pT2 = 0 then Inr st
        else
          let pT = sqrt pT2;
              v1 = px / pT;
              v2 = (px\<^sup>2 - py\<^sup>2) / pT2
          in
          if dy = 0 then
            Inl (Uncaught (if rapidity - y_start = 0 then ValueError else OverflowError))
          else
            let rapidity_index = \<lfloor>(rapidity - y_start) / dy\<rfloor>;
                st1 = (if rapidity_index \<ge> 0 \<and> rapidity_index < int (ny E)
                          \<and> pT \<ge> cut_pT_min E \<and> pT < cut_pT_max E
                       then st\<lparr>y_spectra_event :=
                              fill_bin (y_spectra_event st) hadron_index (nat rapidity_index) v1 v2\<rparr>
                       else st)
            in
            if dpT = 0 then
              Inl (Uncaught (if pT - pT_start = 0 then ValueError else OverflowError))
            else
              let pT_index = \<lfloor>(pT - pT_start) / dpT\<rfloor> in
              if pT_index \<ge> 0 \<and> pT_index < int (npT E) \<and> \<bar>rapidity\<bar> < cut_rap E
              then Inr (st1\<lparr>pT_spectra_event :=
                          fill_bin (pT_spectra_event st1) hadron_index (nat pT_index) v1 v2\<rparr>)
              else Inr st1)"

definition convert_fields :: "env \<Rightarrow> string list \<Rightarrow> real list option" where
  \<comment> \<open>\<open>np.float64\<close> of a slice of the line: every token must convert\<close>
  "convert_fields E toks = those (map (np_float64 E) toks)"

definition particle_line ::
  "env \<Rightarrow> real \<Rightarrow> real \<Rightarrow> real \<Rightarrow> real \<Rightarrow> fstate \<Rightarrow> string list \<Rightarrow> halt + fstate" where
  \<comment> \<open>lines 162 to 192: a line that is not a comment\<close>
  "particle_line E y_start pT_start dy dpT st line =
     (if length line \<le> pdg_idx (fmt E) then Inl (Uncaught IndexError)
      else
        case map_of hadrons (line ! pdg_idx (fmt E)) of
          None \<Rightarrow> Inr st
        | Some (hadron_index, name) \<Rightarrow>
            (case convert_fields E (take 4 line) of
               Some [t, x, y, z] \<Rightarrow>
                 (case convert_fields E
                         (take (mom_end (fmt E) - mom_start (fmt E)) (drop (mom_start (fmt E)) line)) of
                    Some [p0, px, py, pz] \<Rightarrow>
                      bin_particle E y_start pT_start dy dpT hadron_index p0 px py pz st
                  | _ \<Rightarrow> Inl (Uncaught ValueError))
             | _ \<Rightarrow> Inl (Uncaught ValueError)))"

definition process_line ::
  "env \<Rightarrow> real \<Rightarrow> real \<Rightarrow> real \<Rightarrow> real \<Rightarrow> fstate \<Rightarrow> string list \<Rightarrow> halt + fstate" where
  \<comment> \<open>one turn of the loop over the lines of the file\<close>
  "process_line E y_start pT_start dy dpT st line =
     (case line of
        [] \<Rightarrow> Inl (Uncaught IndexError)
      | tok # rest \<Rightarrow>
          (case tok of
             [] \<Rightarrow> Inl (Uncaught IndexError)
           | c # cs \<Rightarrow>
               if c = CHR ''#'' then comment_line E st line
               else particle_line E y_start pT_start dy dpT st line))"

fun process_lines ::
  "env \<Rightarrow> real \<Rightarrow> real \<Rightarrow> real \<Rightarrow> real \<Rightarrow> fstate \<Rightarrow> string list list \<Rightarrow> halt + fstate" where
  "process_lines E y_start pT_start dy dpT st [] = Inr st"
| "process_lines E y_start pT_start dy dpT st (line # rest) =
     (case process_line E y_start pT_start dy dpT st line of
        Inl e \<Rightarrow> Inl e
      | Inr st' \<Rightarrow> process_lines E y_start pT_start dy dpT st' rest)"

text \<open>
  The value returned is the triple of line 194. Its first component is written as an
  option because the caller tests it against \<open>None\<close>; the function itself has no
  path that returns \<open>None\<close>.
\<close>

definition extract_data_oscar ::
  "env \<Rightarrow> string list list option \<Rightarrow> real list \<Rightarrow> real list \<Rightarrow> real \<Rightarrow> real
    \<Rightarrow> halt + (nat option \<times> hist \<times> hist)" where
  "extract_data_oscar E infile y_arr pT_arr dy dpT =
     (case y_arr of
        [] \<Rightarrow> Inl (Uncaught IndexError)
      | y0 # ys \<Rightarrow>
          (case pT_arr of
             [] \<Rightarrow> Inl (Uncaught IndexError)
           | q0 # qs \<Rightarrow>
               (let y_start = y0 - dy / 2; pT_start = q0 - dpT / 2 in
                case infile of
                  None \<Rightarrow> Inl (Uncaught OSError)
                | Some lines \<Rightarrow>
                    (case process_lines E y_start pT_start dy dpT init_fstate lines of
                       Inl e \<Rightarrow> Inl e
                     | Inr st \<Rightarrow>
                         Inr (Some (events_in_file st), y_spectra_file st, pT_spectra_file st)))))"

section \<open>The run over the input files\<close>

record totals =
  total_events :: nat
  y_spectra :: hist
  pT_spectra :: hist

definition init_totals :: totals where
  "init_totals = \<lparr>total_events = 0, y_spectra = zeros, pT_spectra = zeros\<rparr>"

fun run_files ::
  "env \<Rightarrow> real list \<Rightarrow> real list \<Rightarrow> real \<Rightarrow> real \<Rightarrow> totals \<Rightarrow> string list list option list
    \<Rightarrow> halt + totals" where
  "run_files E y_arr pT_arr dy dpT tot [] = Inr tot"
| "run_files E y_arr pT_arr dy dpT tot (infile # rest) =
     (case extract_data_oscar E infile y_arr pT_arr dy dpT of
        Inl e \<Rightarrow> Inl e
      | Inr (new_events, new_y_spectra, new_pT_spectra) \<Rightarrow>
          (case new_events of
             None \<Rightarrow> run_files E y_arr pT_arr dy dpT tot rest
           | Some n \<Rightarrow>
               if n = 0 then run_files E y_arr pT_arr dy dpT tot rest
               else run_files E y_arr pT_arr dy dpT
                      (tot\<lparr>total_events := total_events tot + n,
                           y_spectra := hist_add (y_spectra tot) new_y_spectra,
                           pT_spectra := hist_add (pT_spectra tot) new_pT_spectra\<rparr>)
                      rest))"

text \<open>The tuple pickled at the end of the script, without its two descriptive entries.\<close>

record payload =
  out_total_events :: nat
  out_pT_min_cut :: real
  out_pT_max_cut :: real
  out_rap_cut :: real
  out_y_arr :: "real list"
  out_pT_arr :: "real list"
  out_dy :: real
  out_dpT :: real
  out_y_spectra :: hist
  out_pT_spectra :: hist

definition module_env :: "(string \<Rightarrow> real option) \<Rightarrow> format \<Rightarrow> env" where
  "module_env conv f = \<lparr>np_float64 = conv, fmt = f, cut_rap = rap_cut,
     cut_pT_min = pT_min_cut, cut_pT_max = pT_max_cut, ny = ny_default, npT = npT_default\<rparr>"

definition y_arr_default :: "real list" where
  "y_arr_default =
     linspace (- real ny_default * rap_resolution / 2 + rap_resolution / 2)
       (real ny_default * rap_resolution / 2 - rap_resolution / 2) ny_default"

definition pT_arr_default :: "real list" where
  "pT_arr_default =
     linspace (0 + pT_resolution / 2) (real npT_default * pT_resolution - pT_resolution / 2)
       npT_default"

text \<open>
  The script from the format selection to the pickle: \<open>Inl\<close> is a run that stopped
  without writing the output file, \<open>Inr\<close> is the tuple written to it.
\<close>

definition main :: "(string \<Rightarrow> real option) \<Rightarrow> string \<Rightarrow> string list list option list \<Rightarrow> halt + payload" where
  "main conv type inputs =
     (case select_format type of
        Inl e \<Rightarrow> Inl e
      | Inr f \<Rightarrow>
          (case run_files (module_env conv f) y_arr_default pT_arr_default
                  rap_resolution pT_resolution init_totals inputs of
             Inl e \<Rightarrow> Inl e
           | Inr tot \<Rightarrow>
               if total_events tot = 0 then Inl (SysExit 2)
               else Inr \<lparr>out_total_events = total_events tot,
                          out_pT_min_cut = pT_min_cut, out_pT_max_cut = pT_max_cut,
                          out_rap_cut = rap_cut, out_y_arr = y_arr_default,
                          out_pT_arr = pT_arr_default, out_dy = rap_resolution,
                          out_dpT = pT_resolution, out_y_spectra = y_spectra tot,
                          out_pT_spectra = pT_spectra tot\<rparr>))"

section \<open>Vocabulary of the statements\<close>

text \<open>
  The kinds of line the loop tells apart, as predicates on the token list, and the
  reading of a particle line: its registered hadron index and its four-momentum.
\<close>

definition is_comment :: "string list \<Rightarrow> bool" where
  "is_comment line = (case line of (c # cs) # rest \<Rightarrow> c = CHR ''#'' | _ \<Rightarrow> False)"

definition is_event_line :: "env \<Rightarrow> string list \<Rightarrow> bool" where
  "is_event_line E line \<longleftrightarrow>
     is_comment line \<and> 3 < length line \<and> line ! 1 = event_name_identifier (fmt E)"

definition is_start_marker :: "env \<Rightarrow> string list \<Rightarrow> bool" where
  "is_start_marker E line \<longleftrightarrow>
     is_event_line E line \<and> line ! 3 = event_start_identifier (fmt E)"

definition is_end_marker :: "env \<Rightarrow> string list \<Rightarrow> bool" where
  "is_end_marker E line \<longleftrightarrow>
     is_event_line E line \<and> line ! 3 \<noteq> event_start_identifier (fmt E)
       \<and> line ! 3 = event_end_identifier (fmt E)"

definition is_particle_record ::
  "env \<Rightarrow> string list \<Rightarrow> nat \<Rightarrow> real \<Rightarrow> real \<Rightarrow> real \<Rightarrow> real \<Rightarrow> bool" where
  "is_particle_record E line hadron_index p0 px py pz \<longleftrightarrow>
     line \<noteq> [] \<and> hd line \<noteq> [] \<and> \<not> is_comment line
     \<and> pdg_idx (fmt E) < length line
     \<and> map_option fst (map_of hadrons (line ! pdg_idx (fmt E))) = Some hadron_index
     \<and> map_option length (convert_fields E (take 4 line)) = Some 4
     \<and> convert_fields E
           (take (mom_end (fmt E) - mom_start (fmt E)) (drop (mom_start (fmt E)) line))
         = Some [p0, px, py, pz]"

definition bin_bounded :: "hist \<Rightarrow> nat \<Rightarrow> nat \<Rightarrow> bool" where
  \<comment> \<open>in one bin, both flow sums are bounded by the count\<close>
  "bin_bounded h i j \<longleftrightarrow>
     \<bar>h (i, j, v1_idx)\<bar> \<le> h (i, j, dN_idx) \<and> \<bar>h (i, j, v2_idx)\<bar> \<le> h (i, j, dN_idx)"

definition run_level_emptiness ::
  "(string \<Rightarrow> real option) \<Rightarrow> string \<Rightarrow> string list list option list \<Rightarrow> bool" where
  \<comment> \<open>the format is known, every file was read to its end, and no event was committed\<close>
  "run_level_emptiness conv type inputs =
     (case select_format type of
        Inl e \<Rightarrow> False
      | Inr f \<Rightarrow>
          (case run_files (module_env conv f) y_arr_default pT_arr_default
                  rap_resolution pT_resolution init_totals inputs of
             Inl e \<Rightarrow> False
           | Inr tot \<Rightarrow> total_events tot = 0))"

definition counts_nonneg :: "hist \<Rightarrow> bool" where
  "counts_nonneg h \<longleftrightarrow> (\<forall>i j. 0 \<le> h (i, j, dN_idx))"

definition flow_bounded :: "hist \<Rightarrow> bool" where
  "flow_bounded h \<longleftrightarrow> (\<forall>i j. bin_bounded h i j)"

text \<open>
  Invariants of the state of one file and of the run totals (counts are not negative,
  flow sums are bounded by the counts), and the order in which the committed counts
  grow.
\<close>

definition fstate_ok :: "fstate \<Rightarrow> bool" where
  "fstate_ok st \<longleftrightarrow>
     counts_nonneg (y_spectra_event st) \<and> counts_nonneg (pT_spectra_event st)
     \<and> counts_nonneg (y_spectra_file st) \<and> counts_nonneg (pT_spectra_file st)
     \<and> flow_bounded (y_spectra_event st) \<and> flow_bounded (pT_spectra_event st)
     \<and> flow_bounded (y_spectra_file st) \<and> flow_bounded (pT_spectra_file st)"

definition file_counts_le :: "fstate \<Rightarrow> fstate \<Rightarrow> bool" where
  "file_counts_le st st' \<longleftrightarrow>
     events_in_file st \<le> events_in_file st'
     \<and> (\<forall>i j. y_spectra_file st (i, j, dN_idx) \<le> y_spectra_file st' (i, j, dN_idx))
     \<and> (\<forall>i j. pT_spectra_file st (i, j, dN_idx) \<le> pT_spectra_file st' (i, j, dN_idx))"

definition totals_ok :: "totals \<Rightarrow> bool" where
  "totals_ok tot \<longleftrightarrow>
     counts_nonneg (y_spectra tot) \<and> counts_nonneg (pT_spectra tot)
     \<and> flow_bounded (y_spectra tot) \<and> flow_bounded (pT_spectra tot)"

definition run_counts_le :: "totals \<Rightarrow> totals \<Rightarrow> bool" where
  "run_counts_le t t' \<longleftrightarrow>
     total_events t \<le> total_events t'
     \<and> (\<forall>i j. y_spectra t (i, j, dN_idx) \<le> y_spectra t' (i, j, dN_idx))
     \<and> (\<forall>i j. pT_spectra t (i, j, dN_idx) \<le> pT_spectra t' (i, j, dN_idx))"

definition totals_add :: "totals \<Rightarrow> totals \<Rightarrow> totals" where
  \<comment> \<open>the sum of two run totals, entry by entry\<close>
  "totals_add a b =
     \<lparr>total_events = total_events a + total_events b,
      y_spectra = hist_add (y_spectra a) (y_spectra b),
      pT_spectra = hist_add (pT_spectra a) (pT_spectra b)\<rparr>"

definition y_start_default :: real where
  "y_start_default = hd y_arr_default - rap_resolution / 2"

definition pT_start_default :: real where
  "pT_start_default = hd pT_arr_default - pT_resolution / 2"

subsection \<open>Concrete inputs\<close>

text \<open>
  The closed statements below run the script on SMASH files whose numeric tokens are
  signed decimal integers. On such tokens numpy's conversion is the function
  \<open>dec_float64\<close>; it stands for numpy's conversion there and nowhere else (every other
  token is rejected, as numpy rejects \<open>x\<close>).
\<close>

definition digit_of :: "char \<Rightarrow> nat option" where
  "digit_of c =
     (let n = (of_char c :: nat) in if 48 \<le> n \<and> n \<le> 57 then Some (n - 48) else None)"

fun digits_val :: "nat \<Rightarrow> string \<Rightarrow> nat option" where
  "digits_val acc [] = Some acc"
| "digits_val acc (c # cs) =
     (case digit_of c of None \<Rightarrow> None | Some d \<Rightarrow> digits_val (10 * acc + d) cs)"

definition dec_float64 :: "string \<Rightarrow> real option" where
  "dec_float64 s =
     (case s of
        [] \<Rightarrow> None
      | c # cs \<Rightarrow>
          if c = CHR ''-'' then
            (if cs = [] then None else map_option (\<lambda>n. - real n) (digits_val 0 cs))
          else map_option real (digits_val 0 s))"

definition smash_env :: env where
  "smash_env = module_env dec_float64 smash_format"

text \<open>
  SMASH lines: \<open>t x y z mass p0 px py pz pdg ID charge\<close>. The three particles are
  positive pions of energy 2 with \<open>pz = 0\<close> (rapidity 0, rapidity bin 25): one with
  \<open>px = 1, py = 0\<close> (pT bin 10, \<open>v1 = 1\<close>), one with \<open>px = -1\<close> (\<open>v1 = -1\<close>), and one
  at rest in the transverse plane.
\<close>

definition start_line :: "string list" where
  "start_line = [''#'', ''event'', ''0'', ''out'', ''1'']"

definition end_line :: "string list" where
  "end_line = [''#'', ''event'', ''0'', ''end'', ''0'']"

definition pion_forward :: "string list" where
  "pion_forward =
     [''0'', ''0'', ''0'', ''0'', ''0'', ''2'', ''1'', ''0'', ''0'', ''211'', ''0'', ''1'']"

definition pion_backward :: "string list" where
  "pion_backward =
     [''0'', ''0'', ''0'', ''0'', ''0'', ''2'', ''-1'', ''0'', ''0'', ''211'', ''0'', ''1'']"

definition pion_no_pT :: "string list" where
  "pion_no_pT =
     [''0'', ''0'', ''0'', ''0'', ''0'', ''2'', ''0'', ''0'', ''0'', ''211'', ''0'', ''1'']"

text \<open>
  Pions for the four outcomes of the two acceptance tests: \<open>pT = 5\<close> is beyond the
  last pT bin, and \<open>E = 1000000, pz = 999999\<close> gives a rapidity of about 7.25, beyond
  the last rapidity bin.
\<close>

definition pion_high_pT :: "string list" where
  "pion_high_pT =
     [''0'', ''0'', ''0'', ''0'', ''0'', ''2'', ''5'', ''0'', ''0'', ''211'', ''0'', ''1'']"

definition pion_fast :: "string list" where
  "pion_fast =
     [''0'', ''0'', ''0'', ''0'', ''0'', ''1000000'', ''1'', ''0'', ''999999'', ''211'', ''0'', ''1'']"

definition pion_fast_high_pT :: "string list" where
  "pion_fast_high_pT =
     [''0'', ''0'', ''0'', ''0'', ''0'', ''1000000'', ''5'', ''0'', ''999999'', ''211'', ''0'', ''1'']"

definition pion_garbled :: "string list" where
  "pion_garbled =
     [''0'', ''0'', ''0'', ''0'', ''0'', ''2'', ''x'', ''0'', ''0'', ''211'', ''0'', ''1'']"

text \<open>Reading one entry of a result, so that closed statements need no bound variable.\<close>

definition y_event_entry :: "nat \<times> nat \<times> nat \<Rightarrow> halt + fstate \<Rightarrow> halt + real" where
  "y_event_entry k r = (case r of Inl e \<Rightarrow> Inl e | Inr st \<Rightarrow> Inr (y_spectra_event st k))"

definition pT_event_entry :: "nat \<times> nat \<times> nat \<Rightarrow> halt + fstate \<Rightarrow> halt + real" where
  "pT_event_entry k r = (case r of Inl e \<Rightarrow> Inl e | Inr st \<Rightarrow> Inr (pT_spectra_event st k))"

definition y_file_entry :: "nat \<times> nat \<times> nat \<Rightarrow> halt + fstate \<Rightarrow> halt + real" where
  "y_file_entry k r = (case r of Inl e \<Rightarrow> Inl e | Inr st \<Rightarrow> Inr (y_spectra_file st k))"

definition run_events :: "halt + totals \<Rightarrow> halt + nat" where
  "run_events r = (case r of Inl e \<Rightarrow> Inl e | Inr tot \<Rightarrow> Inr (total_events tot))"

definition run_y_entry :: "nat \<times> nat \<times> nat \<Rightarrow> halt + totals \<Rightarrow> halt + real" where
  "run_y_entry k r = (case r of Inl e \<Rightarrow> Inl e | Inr tot \<Rightarrow> Inr (y_spectra tot k))"

definition returned_events :: "halt + (nat option \<times> hist \<times> hist) \<Rightarrow> halt + nat option" where
  "returned_events r = (case r of Inl e \<Rightarrow> Inl e | Inr (n, yh, ph) \<Rightarrow> Inr n)"

definition returned_y_entry ::
  "nat \<times> nat \<times> nat \<Rightarrow> halt + (nat option \<times> hist \<times> hist) \<Rightarrow> halt + real" where
  "returned_y_entry k r = (case r of Inl e \<Rightarrow> Inl e | Inr (n, yh, ph) \<Rightarrow> Inr (yh k))"

section \<open>General lemmas\<close>

lemma fill_bin_apply:
  "fill_bin h a b v1 v2 (i, j, k) =
     h (i, j, k) + (if i = a \<and> j = b then
                      (if k = dN_idx then 1 else if k = v1_idx then v1 else if k = v2_idx then v2 else 0)
                    else 0)"
  by (simp add: fill_bin_def Let_def dN_idx_def v1_idx_def v2_idx_def)

lemma hist_add_zeros_left [simp]: "hist_add zeros h = h"
  by (simp add: hist_add_def zeros_def)

lemma hist_add_zeros_right [simp]: "hist_add h zeros = h"
  by (simp add: hist_add_def zeros_def)

lemma process_lines_append:
  "process_lines E ys ps dy dpT st (xs @ zs) =
     (case process_lines E ys ps dy dpT st xs of
        Inl e \<Rightarrow> Inl e
      | Inr st' \<Rightarrow> process_lines E ys ps dy dpT st' zs)"
  by (induction xs arbitrary: st) (auto split: sum.splits)

lemma run_files_append:
  "run_files E ya pa dy dpT tot (xs @ zs) =
     (case run_files E ya pa dy dpT tot xs of
        Inl e \<Rightarrow> Inl e
      | Inr tot' \<Rightarrow> run_files E ya pa dy dpT tot' zs)"
  by (induction xs arbitrary: tot) (auto split: sum.splits option.splits)

lemma linspace_Cons:
  "0 < n \<Longrightarrow> linspace a b n = a # map (\<lambda>i. a + real i * ((b - a) / real (n - 1))) [1..<n]"
  by (simp add: linspace_def upt_conv_Cons)

lemma y_start_default_eq: "y_start_default = - 51 / 10"
  by (simp add: y_start_default_def y_arr_default_def linspace_Cons ny_default_def rap_resolution_def)

lemma pT_start_default_eq: "pT_start_default = 0"
  by (simp add: pT_start_default_def pT_arr_default_def linspace_Cons npT_default_def pT_resolution_def)

lemma y_arr_default_nonempty: "y_arr_default \<noteq> []"
  by (simp add: y_arr_default_def linspace_Cons ny_default_def)

lemma pT_arr_default_nonempty: "pT_arr_default \<noteq> []"
  by (simp add: pT_arr_default_def linspace_Cons npT_default_def)

lemma extract_default:
  "extract_data_oscar E infile y_arr_default pT_arr_default rap_resolution pT_resolution =
     (case infile of
        None \<Rightarrow> Inl (Uncaught OSError)
      | Some lines \<Rightarrow>
          (case process_lines E y_start_default pT_start_default rap_resolution pT_resolution
                  init_fstate lines of
             Inl e \<Rightarrow> Inl e
           | Inr st \<Rightarrow> Inr (Some (events_in_file st), y_spectra_file st, pT_spectra_file st)))"
proof -
  obtain y0 ys where y: "y_arr_default = y0 # ys"
    using y_arr_default_nonempty by (cases y_arr_default) auto
  obtain q0 qs where q: "pT_arr_default = q0 # qs"
    using pT_arr_default_nonempty by (cases pT_arr_default) auto
  have "y_start_default = y0 - rap_resolution / 2" "pT_start_default = q0 - pT_resolution / 2"
    by (simp_all add: y_start_default_def pT_start_default_def y q)
  then show ?thesis
    unfolding extract_data_oscar_def y q by (simp add: Let_def)
qed

text \<open>
  The file reader has no path that returns \<open>None\<close> as its event count, which is the
  only thing the loop over the files would take as a failed file.
\<close>

lemma extract_never_None:
  "extract_data_oscar E infile ya pa dy dpT = Inr (n, yh, ph) \<Longrightarrow> n \<noteq> None"
  by (auto simp: extract_data_oscar_def Let_def split: list.splits option.splits sum.splits)

lemma particle_record_step:
  assumes "is_particle_record E line hadron_index p0 px py pz"
  shows "process_line E y_start pT_start dy dpT st line =
           bin_particle E y_start pT_start dy dpT hadron_index p0 px py pz st"
proof -
  from assms obtain rest c cs where line: "line = (c # cs) # rest" and c: "c \<noteq> CHR ''#''"
    by (auto simp: is_particle_record_def is_comment_def neq_Nil_conv)
  from assms obtain name where
    h: "map_of hadrons (line ! pdg_idx (fmt E)) = Some (hadron_index, name)"
    by (auto simp: is_particle_record_def)
  from assms obtain t x y z where txyz: "convert_fields E (take 4 line) = Some [t, x, y, z]"
    by (auto simp: is_particle_record_def length_Suc_conv numeral_eq_Suc)
  from assms have
    mom: "convert_fields E
            (take (mom_end (fmt E) - mom_start (fmt E)) (drop (mom_start (fmt E)) line))
          = Some [p0, px, py, pz]"
    and len: "pdg_idx (fmt E) < length line"
    by (auto simp: is_particle_record_def)
  show ?thesis
    using c h txyz mom len by (simp add: process_line_def line particle_line_def)
qed

lemma comment_start:
  "is_start_marker E line \<Longrightarrow>
     process_line E ys ps dy dpT st line = Inr (st\<lparr>unfinished_event := True\<rparr>)"
  by (auto simp: is_start_marker_def is_event_line_def is_comment_def process_line_def
      comment_line_def split: list.splits)

lemma comment_end_open:
  "is_end_marker E line \<Longrightarrow> unfinished_event st \<Longrightarrow>
     process_line E ys ps dy dpT st line = Inr (commit_event st)"
  by (auto simp: is_end_marker_def is_event_line_def is_comment_def process_line_def
      comment_line_def split: list.splits)

lemma comment_end_closed:
  "is_end_marker E line \<Longrightarrow> \<not> unfinished_event st \<Longrightarrow>
     process_line E ys ps dy dpT st line = Inl (SysExit 1)"
  by (auto simp: is_end_marker_def is_event_line_def is_comment_def process_line_def
      comment_line_def split: list.splits)

section \<open>The script on the concrete lines\<close>

lemma start_line_marker: "is_start_marker (module_env conv smash_format) start_line"
  by (simp add: is_start_marker_def is_event_line_def is_comment_def start_line_def
      module_env_def smash_format_def)

lemma end_line_marker: "is_end_marker (module_env conv smash_format) end_line"
  by (simp add: is_end_marker_def is_event_line_def is_comment_def end_line_def
      module_env_def smash_format_def)

lemma smash_env_fields:
  "ny smash_env = 51" "npT smash_env = 40" "cut_rap smash_env = 1000"
  "cut_pT_min smash_env = 0" "cut_pT_max smash_env = 1000" "fmt smash_env = smash_format"
  by (simp_all add: smash_env_def module_env_def ny_default_def npT_default_def rap_cut_def
      pT_min_cut_def pT_max_cut_def)

lemma pion_forward_record: "is_particle_record smash_env pion_forward 0 2 1 0 0"
  by (simp add: is_particle_record_def is_comment_def pion_forward_def smash_env_def
      module_env_def smash_format_def hadrons_def convert_fields_def dec_float64_def digit_of_def)

lemma pion_backward_record: "is_particle_record smash_env pion_backward 0 2 (- 1) 0 0"
  by (simp add: is_particle_record_def is_comment_def pion_backward_def smash_env_def
      module_env_def smash_format_def hadrons_def convert_fields_def dec_float64_def digit_of_def)

lemma pion_no_pT_record: "is_particle_record smash_env pion_no_pT 0 2 0 0 0"
  by (simp add: is_particle_record_def is_comment_def pion_no_pT_def smash_env_def
      module_env_def smash_format_def hadrons_def convert_fields_def dec_float64_def digit_of_def)

lemma more_records:
  "is_particle_record smash_env pion_high_pT 0 2 5 0 0"
  "is_particle_record smash_env pion_fast 0 1000000 1 0 999999"
  "is_particle_record smash_env pion_fast_high_pT 0 1000000 5 0 999999"
  by (simp_all add: is_particle_record_def is_comment_def pion_high_pT_def pion_fast_def
      pion_fast_high_pT_def smash_env_def
      module_env_def smash_format_def hadrons_def convert_fields_def dec_float64_def digit_of_def)

lemma pion_forward_not_comment: "\<not> is_comment pion_forward"
  by (simp add: is_comment_def pion_forward_def)

lemma pion_forward_step:
  "process_line smash_env y_start_default pT_start_default rap_resolution pT_resolution st
     pion_forward
   = Inr (st\<lparr>y_spectra_event := fill_bin (y_spectra_event st) 0 25 1 1,
              pT_spectra_event := fill_bin (pT_spectra_event st) 0 10 1 1\<rparr>)"
  unfolding particle_record_step [OF pion_forward_record]
  by (simp add: bin_particle_def Let_def smash_env_fields y_start_default_eq pT_start_default_eq
      rap_resolution_def pT_resolution_def)

lemma pion_backward_step:
  "process_line smash_env y_start_default pT_start_default rap_resolution pT_resolution st
     pion_backward
   = Inr (st\<lparr>y_spectra_event := fill_bin (y_spectra_event st) 0 25 (- 1) 1,
              pT_spectra_event := fill_bin (pT_spectra_event st) 0 10 (- 1) 1\<rparr>)"
  unfolding particle_record_step [OF pion_backward_record]
  by (simp add: bin_particle_def Let_def smash_env_fields y_start_default_eq pT_start_default_eq
      rap_resolution_def pT_resolution_def)

lemma pion_garbled_step:
  "process_line smash_env ys ps dy dpT st pion_garbled = Inl (Uncaught ValueError)"
  by (simp add: process_line_def particle_line_def pion_garbled_def smash_env_def
      module_env_def smash_format_def hadrons_def convert_fields_def dec_float64_def digit_of_def)

lemma start_line_step:
  "process_line smash_env ys ps dy dpT st start_line = Inr (st\<lparr>unfinished_event := True\<rparr>)"
  unfolding smash_env_def by (rule comment_start [OF start_line_marker])

lemma end_line_step:
  "process_line smash_env ys ps dy dpT st end_line =
     (if unfinished_event st then Inr (commit_event st) else Inl (SysExit 1))"
  unfolding smash_env_def
  using comment_end_open [OF end_line_marker] comment_end_closed [OF end_line_marker]
  by simp

lemmas smash_steps = pion_forward_step pion_backward_step start_line_step end_line_step

lemma extract_forward:
  "extract_data_oscar smash_env (Some [start_line, pion_forward, end_line])
     y_arr_default pT_arr_default rap_resolution pT_resolution
   = Inr (Some 1, fill_bin zeros 0 25 1 1, fill_bin zeros 0 10 1 1)"
  by (simp add: extract_default smash_steps init_fstate_def commit_event_def)

lemma extract_backward:
  "extract_data_oscar smash_env (Some [start_line, pion_backward, end_line])
     y_arr_default pT_arr_default rap_resolution pT_resolution
   = Inr (Some 1, fill_bin zeros 0 25 (- 1) 1, fill_bin zeros 0 10 (- 1) 1)"
  by (simp add: extract_default smash_steps init_fstate_def commit_event_def)

lemma ln_fast_bounds: "11 \<le> ln (1999999::real)" "ln (1999999::real) < 21"
proof -
  have "exp (11::real) = exp 1 ^ 11"
    using exp_of_nat_mult [of 11 "1::real"] by simp
  also have "\<dots> \<le> 3 ^ 11"
    by (intro power_mono exp_le) simp
  also have "\<dots> \<le> (1999999::real)" by simp
  finally show "11 \<le> ln (1999999::real)"
    by (simp add: ln_ge_iff)
  have "(1999999::real) < 2 ^ 21" by simp
  also have "\<dots> \<le> exp 1 ^ 21"
    using exp_ge_add_one_self [of "1::real"] by (intro power_mono) simp_all
  also have "\<dots> = exp (21::real)"
    using exp_of_nat_mult [of 21 "1::real"] by simp
  finally have "(1999999::real) < exp 21" .
  then have "ln (1999999::real) < ln (exp (21::real))"
    by (subst ln_less_cancel_iff) simp_all
  then show "ln (1999999::real) < 21"
    by simp
qed

section \<open>Invariants of the accumulation\<close>

lemma bin_particle_file_fields:
  "bin_particle E ys ps dy dpT h p0 px py pz st = Inr st' \<Longrightarrow>
     unfinished_event st' = unfinished_event st \<and> events_in_file st' = events_in_file st
     \<and> y_spectra_file st' = y_spectra_file st \<and> pT_spectra_file st' = pT_spectra_file st"
  by (auto simp: bin_particle_def Let_def split: if_splits)

lemma particle_line_file_fields:
  "particle_line E ys ps dy dpT st line = Inr st' \<Longrightarrow>
     unfinished_event st' = unfinished_event st \<and> events_in_file st' = events_in_file st
     \<and> y_spectra_file st' = y_spectra_file st \<and> pT_spectra_file st' = pT_spectra_file st"
  unfolding particle_line_def
  by (auto dest: bin_particle_file_fields split: if_splits option.splits list.splits)

lemma ratio_bound:
  fixes a s :: real
  assumes "\<bar>a\<bar> \<le> s"
  shows "\<bar>a / s\<bar> \<le> 1"
proof (cases "s = 0")
  case True
  then show ?thesis by simp
next
  case False
  with assms have "0 < s" by linarith
  then show ?thesis
    using assms by (simp add: abs_divide divide_le_eq)
qed

lemma v1_bound: "\<bar>px / sqrt (px\<^sup>2 + py\<^sup>2)\<bar> \<le> 1"
proof -
  have "\<bar>px\<bar> \<le> sqrt (px\<^sup>2 + py\<^sup>2)"
    using real_sqrt_sum_squares_ge1 [of "\<bar>px\<bar>" py] by simp
  then show ?thesis by (rule ratio_bound)
qed

lemma v2_bound: "\<bar>(px\<^sup>2 - py\<^sup>2) / (px\<^sup>2 + py\<^sup>2)\<bar> \<le> (1::real)"
proof -
  have "\<bar>px\<^sup>2 - py\<^sup>2\<bar> \<le> px\<^sup>2 + py\<^sup>2"
    by (simp add: abs_le_iff)
  then show ?thesis by (rule ratio_bound)
qed

lemma fill_bin_counts_nonneg: "counts_nonneg h \<Longrightarrow> counts_nonneg (fill_bin h a b v1 v2)"
  by (auto simp: counts_nonneg_def fill_bin_apply)

lemma fill_bin_bin_bounded:
  assumes "bin_bounded h i j" and "\<bar>v1\<bar> \<le> 1" and "\<bar>v2\<bar> \<le> 1"
  shows "bin_bounded (fill_bin h a b v1 v2) i j"
proof (cases "i = a \<and> j = b")
  case True
  have "\<bar>h (a, b, v1_idx) + v1\<bar> \<le> h (a, b, dN_idx) + 1"
    and "\<bar>h (a, b, v2_idx) + v2\<bar> \<le> h (a, b, dN_idx) + 1"
    using assms True unfolding bin_bounded_def by auto
  then show ?thesis
    using True by (simp add: bin_bounded_def fill_bin_apply dN_idx_def v1_idx_def v2_idx_def)
next
  case False
  then show ?thesis
    using assms(1) by (auto simp: bin_bounded_def fill_bin_apply)
qed

lemma fill_bin_flow_bounded:
  "flow_bounded h \<Longrightarrow> \<bar>v1\<bar> \<le> 1 \<Longrightarrow> \<bar>v2\<bar> \<le> 1 \<Longrightarrow> flow_bounded (fill_bin h a b v1 v2)"
  by (simp add: flow_bounded_def fill_bin_bin_bounded)

lemma hist_add_counts_nonneg:
  "counts_nonneg a \<Longrightarrow> counts_nonneg b \<Longrightarrow> counts_nonneg (hist_add a b)"
  by (simp add: counts_nonneg_def hist_add_def)

lemma hist_add_flow_bounded:
  "flow_bounded a \<Longrightarrow> flow_bounded b \<Longrightarrow> flow_bounded (hist_add a b)"
proof -
  have "bin_bounded (hist_add a b) i j" if "bin_bounded a i j" and "bin_bounded b i j" for i j
    using that unfolding bin_bounded_def hist_add_def by linarith
  then show "flow_bounded a \<Longrightarrow> flow_bounded b \<Longrightarrow> flow_bounded (hist_add a b)"
    by (simp add: flow_bounded_def)
qed

lemma zeros_counts_nonneg [simp]: "counts_nonneg zeros"
  by (simp add: counts_nonneg_def zeros_def)

lemma zeros_flow_bounded [simp]: "flow_bounded zeros"
  by (simp add: flow_bounded_def bin_bounded_def zeros_def)

lemma init_fstate_ok: "fstate_ok init_fstate"
  by (simp add: fstate_ok_def init_fstate_def)

lemma commit_event_ok: "fstate_ok st \<Longrightarrow> fstate_ok (commit_event st)"
  by (simp add: fstate_ok_def commit_event_def hist_add_counts_nonneg hist_add_flow_bounded)

lemma bin_particle_ok:
  assumes "bin_particle E ys ps dy dpT h p0 px py pz st = Inr st'" and "fstate_ok st"
  shows "fstate_ok st'"
  using assms v1_bound [of px py] v2_bound [of px py]
  by (auto simp: bin_particle_def Let_def fstate_ok_def fill_bin_counts_nonneg
      fill_bin_flow_bounded split: if_splits simp del: sum_power2_eq_zero_iff)

lemma particle_line_ok:
  "particle_line E ys ps dy dpT st line = Inr st' \<Longrightarrow> fstate_ok st \<Longrightarrow> fstate_ok st'"
  unfolding particle_line_def
  by (auto dest: bin_particle_ok split: if_splits option.splits list.splits)

lemma comment_line_ok:
  "comment_line E st line = Inr st' \<Longrightarrow> fstate_ok st \<Longrightarrow> fstate_ok st'"
  unfolding comment_line_def
  by (auto simp: commit_event_ok split: if_splits) (simp add: fstate_ok_def)

lemma process_line_ok:
  "process_line E ys ps dy dpT st line = Inr st' \<Longrightarrow> fstate_ok st \<Longrightarrow> fstate_ok st'"
  unfolding process_line_def
  by (auto dest: comment_line_ok particle_line_ok split: list.splits if_splits)

lemma process_lines_ok:
  "process_lines E ys ps dy dpT st lines = Inr st' \<Longrightarrow> fstate_ok st \<Longrightarrow> fstate_ok st'"
  by (induction lines arbitrary: st) (auto dest: process_line_ok split: sum.splits)

lemma file_counts_le_refl: "file_counts_le st st"
  by (simp add: file_counts_le_def)

lemma file_counts_le_trans:
  "file_counts_le a b \<Longrightarrow> file_counts_le b c \<Longrightarrow> file_counts_le a c"
  unfolding file_counts_le_def by (meson order_trans)

lemma commit_event_counts: "fstate_ok st \<Longrightarrow> file_counts_le st (commit_event st)"
  by (simp add: file_counts_le_def commit_event_def fstate_ok_def counts_nonneg_def hist_add_def)

lemma comment_line_counts:
  "comment_line E st line = Inr st' \<Longrightarrow> fstate_ok st \<Longrightarrow> file_counts_le st st'"
  unfolding comment_line_def
  by (auto simp: commit_event_counts file_counts_le_refl split: if_splits)
     (simp add: file_counts_le_def)

lemma particle_line_counts:
  "particle_line E ys ps dy dpT st line = Inr st' \<Longrightarrow> file_counts_le st st'"
  by (drule particle_line_file_fields) (simp add: file_counts_le_def)

lemma process_line_counts:
  "process_line E ys ps dy dpT st line = Inr st' \<Longrightarrow> fstate_ok st \<Longrightarrow> file_counts_le st st'"
  unfolding process_line_def
  by (auto dest: comment_line_counts particle_line_counts split: list.splits if_splits)

lemma process_lines_counts:
  "process_lines E ys ps dy dpT st lines = Inr st' \<Longrightarrow> fstate_ok st \<Longrightarrow> file_counts_le st st'"
proof (induction lines arbitrary: st)
  case Nil
  then show ?case by (simp add: file_counts_le_refl)
next
  case (Cons l ls)
  then obtain mid where mid: "process_line E ys ps dy dpT st l = Inr mid"
    and rest: "process_lines E ys ps dy dpT mid ls = Inr st'"
    by (auto split: sum.splits)
  have "file_counts_le st mid" using mid Cons.prems(2) by (rule process_line_counts)
  moreover have "file_counts_le mid st'"
    using rest process_line_ok [OF mid Cons.prems(2)] by (rule Cons.IH)
  ultimately show ?case by (rule file_counts_le_trans)
qed

lemma extract_ok:
  assumes "extract_data_oscar E infile ya pa dy dpT = Inr (n, yh, ph)"
  shows "counts_nonneg yh \<and> counts_nonneg ph \<and> flow_bounded yh \<and> flow_bounded ph"
proof -
  from assms obtain ys ps lines st where
    "process_lines E ys ps dy dpT init_fstate lines = Inr st"
    and "yh = y_spectra_file st" and "ph = pT_spectra_file st"
    by (auto simp: extract_data_oscar_def Let_def split: list.splits option.splits sum.splits)
  then show ?thesis
    using process_lines_ok [OF _ init_fstate_ok] by (auto simp: fstate_ok_def)
qed

lemma run_files_ok:
  "run_files E ya pa dy dpT tot files = Inr tot' \<Longrightarrow> totals_ok tot \<Longrightarrow> totals_ok tot'"
proof (induction files arbitrary: tot)
  case Nil
  then show ?case by simp
next
  case (Cons f fs)
  from Cons.prems(1) obtain n yh ph where
    ex: "extract_data_oscar E f ya pa dy dpT = Inr (n, yh, ph)"
    by (auto split: sum.splits)
  note ok = extract_ok [OF ex]
  have step: "totals_ok (tot\<lparr>total_events := total_events tot + k,
      y_spectra := hist_add (y_spectra tot) yh, pT_spectra := hist_add (pT_spectra tot) ph\<rparr>)" for k
    using ok Cons.prems(2)
    by (simp add: totals_ok_def hist_add_counts_nonneg hist_add_flow_bounded)
  show ?case
    using Cons.prems ex Cons.IH [OF _ step] Cons.IH [OF _ Cons.prems(2)]
    by (auto split: option.splits if_splits)
qed

lemma run_counts_le_trans:
  "run_counts_le a b \<Longrightarrow> run_counts_le b c \<Longrightarrow> run_counts_le a c"
  unfolding run_counts_le_def by (meson order_trans)

lemma run_files_counts:
  "run_files E ya pa dy dpT tot files = Inr tot' \<Longrightarrow> totals_ok tot \<Longrightarrow> run_counts_le tot tot'"
proof (induction files arbitrary: tot)
  case Nil
  then show ?case by (simp add: run_counts_le_def)
next
  case (Cons f fs)
  from Cons.prems(1) obtain n yh ph where
    ex: "extract_data_oscar E f ya pa dy dpT = Inr (n, yh, ph)"
    by (auto split: sum.splits)
  note ok = extract_ok [OF ex]
  let ?t = "\<lambda>k. tot\<lparr>total_events := total_events tot + k,
      y_spectra := hist_add (y_spectra tot) yh, pT_spectra := hist_add (pT_spectra tot) ph\<rparr>"
  have step_ok: "totals_ok (?t k)" for k
    using ok Cons.prems(2)
    by (simp add: totals_ok_def hist_add_counts_nonneg hist_add_flow_bounded)
  have step_le: "run_counts_le tot (?t k)" for k
    using ok by (simp add: run_counts_le_def counts_nonneg_def hist_add_def)
  show ?case
    using Cons.prems ex Cons.IH [OF _ step_ok] Cons.IH [OF _ Cons.prems(2)] step_le
    by (auto split: option.splits if_splits intro: run_counts_le_trans)
qed

lemma init_totals_ok: "totals_ok init_totals"
  by (simp add: totals_ok_def init_totals_def)

section \<open>Exit status of a halted run\<close>

lemma comment_line_status: "comment_line E st line = Inl e \<Longrightarrow> exit_status e = 1"
  by (auto simp: comment_line_def split: if_splits)

lemma bin_particle_status:
  "bin_particle E ys ps dy dpT h p0 px py pz st = Inl e \<Longrightarrow> exit_status e = 1"
  by (auto simp: bin_particle_def Let_def split: if_splits)

lemma particle_line_status: "particle_line E ys ps dy dpT st line = Inl e \<Longrightarrow> exit_status e = 1"
  by (auto simp: particle_line_def simp del: One_nat_def dest: bin_particle_status
      split: if_splits option.splits list.splits)

lemma process_line_status: "process_line E ys ps dy dpT st line = Inl e \<Longrightarrow> exit_status e = 1"
  by (auto simp: process_line_def simp del: One_nat_def
      dest: comment_line_status particle_line_status split: list.splits if_splits)

lemma process_lines_status:
  "process_lines E ys ps dy dpT st lines = Inl e \<Longrightarrow> exit_status e = 1"
  by (induction lines arbitrary: st)
     (auto simp del: One_nat_def dest: process_line_status split: sum.splits)

lemma extract_status:
  "extract_data_oscar E infile ya pa dy dpT = Inl e \<Longrightarrow> exit_status e = 1"
  by (auto simp: extract_data_oscar_def Let_def simp del: One_nat_def
      dest: process_lines_status split: list.splits option.splits sum.splits)

lemma run_files_status:
  "run_files E ya pa dy dpT tot files = Inl e \<Longrightarrow> exit_status e = 1"
  by (induction files arbitrary: tot)
     (auto simp del: One_nat_def dest: extract_status
        split: sum.splits option.splits if_splits)

section \<open>Events that were never closed\<close>

text \<open>
  Claim C1 on a file where an event is opened, receives a pion and is never closed,
  and a second, empty event is then opened and closed. The start label of the second
  event does not clear the event histograms, so its end label commits the pion of the
  first: the file returns one committed event and count 1 in the pion's rapidity bin.
  The comment at line 130 of the script says that hadrons are added only if their
  event is complete.
\<close>

theorem unfinished_event_is_committed:
  "returned_events
     (extract_data_oscar smash_env (Some [start_line, pion_forward, start_line, end_line])
        y_arr_default pT_arr_default rap_resolution pT_resolution) = Inr (Some 1)
   \<and> returned_y_entry (0, 25, dN_idx)
     (extract_data_oscar smash_env (Some [start_line, pion_forward, start_line, end_line])
        y_arr_default pT_arr_default rap_resolution pT_resolution) = Inr 1"
  by (simp add: init_fstate_def returned_events_def returned_y_entry_def
      extract_default smash_steps commit_event_def fill_bin_apply hist_add_def zeros_def)

lemma comment_line_no_end:
  assumes "comment_line E st line = Inr st'" and "\<not> is_end_marker E line" and "is_comment line"
  shows "events_in_file st' = events_in_file st \<and> y_spectra_file st' = y_spectra_file st
     \<and> pT_spectra_file st' = pT_spectra_file st"
  using assms
  by (auto simp: comment_line_def is_end_marker_def is_event_line_def split: if_splits)

lemma process_line_no_end:
  assumes "process_line E ys ps dy dpT st line = Inr st'" and "\<not> is_end_marker E line"
  shows "events_in_file st' = events_in_file st \<and> y_spectra_file st' = y_spectra_file st
     \<and> pT_spectra_file st' = pT_spectra_file st"
proof (cases "is_comment line")
  case True
  then have "comment_line E st line = Inr st'"
    using assms(1) by (auto simp: process_line_def is_comment_def split: list.splits if_splits)
  then show ?thesis using assms(2) True by (rule comment_line_no_end)
next
  case False
  then have "particle_line E ys ps dy dpT st line = Inr st'"
    using assms(1) by (auto simp: process_line_def is_comment_def split: list.splits if_splits)
  then show ?thesis by (simp add: particle_line_file_fields)
qed

lemma trailing_lines_discarded:
  assumes "process_lines E ys ps dy dpT st tail = Inr st'"
    and "list_all (\<lambda>l. \<not> is_end_marker E l) tail"
  shows "events_in_file st' = events_in_file st \<and> y_spectra_file st' = y_spectra_file st
     \<and> pT_spectra_file st' = pT_spectra_file st"
  using assms
proof (induction tail arbitrary: st)
  case Nil
  then show ?case by simp
next
  case (Cons l ls)
  then obtain mid where mid: "process_line E ys ps dy dpT st l = Inr mid"
    and rest: "process_lines E ys ps dy dpT mid ls = Inr st'"
    by (auto split: sum.splits)
  from Cons.prems(2) have "\<not> is_end_marker E l" and "list_all (\<lambda>l. \<not> is_end_marker E l) ls"
    by simp_all
  then show ?case
    using process_line_no_end [OF mid] Cons.IH [OF rest] by simp
qed

text \<open>
  What holds of claim C1: lines that follow the last end label, when they are read to
  the end of the stream, change neither the event count nor the histograms that the
  file returns. An event that is still open at the end of the stream is dropped.
\<close>

lemma unterminated_trailing_event_discarded:
  assumes "process_lines E (y0 - dy / 2) (q0 - dpT / 2) dy dpT init_fstate (body @ tail) = Inr st'"
    and "list_all (\<lambda>l. \<not> is_end_marker E l) tail"
  shows "extract_data_oscar E (Some (body @ tail)) (y0 # ya) (q0 # pa) dy dpT
       = extract_data_oscar E (Some body) (y0 # ya) (q0 # pa) dy dpT"
proof -
  from assms(1) obtain st where body: "process_lines E (y0 - dy / 2) (q0 - dpT / 2) dy dpT
      init_fstate body = Inr st"
    and tail: "process_lines E (y0 - dy / 2) (q0 - dpT / 2) dy dpT st tail = Inr st'"
    by (auto simp: process_lines_append split: sum.splits)
  show ?thesis
    using trailing_lines_discarded [OF tail assms(2)] body assms(1)
    by (simp add: extract_data_oscar_def Let_def)
qed

theorem unterminated_trailing_event_discarded_witness:
  "process_lines smash_env (hd y_arr_default - rap_resolution / 2)
      (hd pT_arr_default - pT_resolution / 2) rap_resolution pT_resolution init_fstate
      ([start_line, pion_forward, end_line] @ [start_line, pion_backward])
    = Inr (commit_event (init_fstate\<lparr>unfinished_event := True,
              y_spectra_event := fill_bin zeros 0 25 1 1,
              pT_spectra_event := fill_bin zeros 0 10 1 1\<rparr>)
            \<lparr>unfinished_event := True,
              y_spectra_event := fill_bin zeros 0 25 (- 1) 1,
              pT_spectra_event := fill_bin zeros 0 10 (- 1) 1\<rparr>)
   \<and> list_all (\<lambda>l. \<not> is_end_marker smash_env l) [start_line, pion_backward]
   \<and> extract_data_oscar smash_env
        (Some ([start_line, pion_forward, end_line] @ [start_line, pion_backward]))
        y_arr_default pT_arr_default rap_resolution pT_resolution
      = Inr (Some 1, fill_bin zeros 0 25 1 1, fill_bin zeros 0 10 1 1)"
proof -
  let ?E = smash_env
  have a: "process_lines smash_env (hd y_arr_default - rap_resolution / 2)
      (hd pT_arr_default - pT_resolution / 2) rap_resolution pT_resolution init_fstate
      ([start_line, pion_forward, end_line] @ [start_line, pion_backward])
    = Inr (commit_event (init_fstate\<lparr>unfinished_event := True,
              y_spectra_event := fill_bin zeros 0 25 1 1,
              pT_spectra_event := fill_bin zeros 0 10 1 1\<rparr>)
            \<lparr>unfinished_event := True,
              y_spectra_event := fill_bin zeros 0 25 (- 1) 1,
              pT_spectra_event := fill_bin zeros 0 10 (- 1) 1\<rparr>)"
    by (simp add: smash_steps y_start_default_def [symmetric] pT_start_default_def [symmetric]
        init_fstate_def commit_event_def)
  have b: "list_all (\<lambda>l. \<not> is_end_marker smash_env l) [start_line, pion_backward]"
    by (simp add: is_end_marker_def is_event_line_def is_comment_def start_line_def
        pion_backward_def smash_env_def module_env_def smash_format_def)
  obtain y0 ya where y: "y_arr_default = y0 # ya"
    using y_arr_default_nonempty by (cases y_arr_default) auto
  obtain q0 pa where q: "pT_arr_default = q0 # pa"
    using pT_arr_default_nonempty by (cases pT_arr_default) auto
  have "extract_data_oscar smash_env
        (Some ([start_line, pion_forward, end_line] @ [start_line, pion_backward]))
        y_arr_default pT_arr_default rap_resolution pT_resolution
      = extract_data_oscar smash_env (Some [start_line, pion_forward, end_line])
        y_arr_default pT_arr_default rap_resolution pT_resolution"
    using unterminated_trailing_event_discarded [of smash_env y0 rap_resolution q0 pT_resolution
        "[start_line, pion_forward, end_line]" "[start_line, pion_backward]" _ ya pa] a b
    unfolding y q by simp
  then show ?thesis
    using a b by (simp add: extract_forward)
qed

section \<open>Acceptance into the two event histograms\<close>

text \<open>
  Claim C2. For a particle record with a registered hadron code and valid rapidity and
  pT, the line adds the triple (count 1, v1, v2) to the event-scoped rapidity histogram
  exactly when the rapidity bin index \<open>\<lfloor>(rapidity - y_start) / dy\<rfloor>\<close> lies in
  \<open>[0, ny)\<close> and pT lies in \<open>[pT_min_cut, pT_max_cut)\<close>, and to the event-scoped pT
  histogram exactly when the pT bin index \<open>\<lfloor>(pT - pT_start) / dpT\<rfloor>\<close> lies in
  \<open>[0, npT)\<close> and \<open>\<bar>rapidity\<bar> < rap_cut\<close>; otherwise the histogram is left as it
  was. Each histogram has its own condition, so the particle can reach one of them,
  both or neither. Nothing else of the state changes.

  The statement gives the new state, and then every entry of the two event histograms
  after the line: the entry \<open>(i, j, k)\<close> is the old entry, plus 1 (for the count),
  \<open>v1\<close> or \<open>v2\<close> when the histogram's test holds, \<open>i\<close> is the hadron index and
  \<open>j\<close> is the bin index, and plus nothing in every other case.
\<close>

theorem binning_acceptance:
  fixes p0 px py pz y_start pT_start dy dpT :: real
  defines "rapidity \<equiv> 0.5 * ln ((p0 + pz) / (p0 - pz))"
    and "pT \<equiv> sqrt (px\<^sup>2 + py\<^sup>2)"
    and "v1 \<equiv> px / sqrt (px\<^sup>2 + py\<^sup>2)"
    and "v2 \<equiv> (px\<^sup>2 - py\<^sup>2) / (px\<^sup>2 + py\<^sup>2)"
  defines "rapidity_index \<equiv> \<lfloor>(rapidity - y_start) / dy\<rfloor>"
    and "pT_index \<equiv> \<lfloor>(pT - pT_start) / dpT\<rfloor>"
  assumes rec: "is_particle_record E line hadron_index p0 px py pz"
    and valid: "(p0 - pz) * (p0 + pz) > 0" "px\<^sup>2 + py\<^sup>2 \<noteq> 0"
    and widths: "dy \<noteq> 0" "dpT \<noteq> 0"
  shows "process_line E y_start pT_start dy dpT st line =
     Inr (st\<lparr>y_spectra_event :=
               (if 0 \<le> rapidity_index \<and> rapidity_index < int (ny E)
                   \<and> cut_pT_min E \<le> pT \<and> pT < cut_pT_max E
                then fill_bin (y_spectra_event st) hadron_index (nat rapidity_index) v1 v2
                else y_spectra_event st),
             pT_spectra_event :=
               (if 0 \<le> pT_index \<and> pT_index < int (npT E) \<and> \<bar>rapidity\<bar> < cut_rap E
                then fill_bin (pT_spectra_event st) hadron_index (nat pT_index) v1 v2
                else pT_spectra_event st)\<rparr>)
   \<and> y_event_entry (i, j, k) (process_line E y_start pT_start dy dpT st line) =
       Inr (y_spectra_event st (i, j, k) +
            (if (0 \<le> rapidity_index \<and> rapidity_index < int (ny E)
                  \<and> cut_pT_min E \<le> pT \<and> pT < cut_pT_max E)
                \<and> i = hadron_index \<and> int j = rapidity_index
             then (if k = dN_idx then 1 else if k = v1_idx then v1
                   else if k = v2_idx then v2 else 0)
             else 0))
   \<and> pT_event_entry (i, j, k) (process_line E y_start pT_start dy dpT st line) =
       Inr (pT_spectra_event st (i, j, k) +
            (if (0 \<le> pT_index \<and> pT_index < int (npT E) \<and> \<bar>rapidity\<bar> < cut_rap E)
                \<and> i = hadron_index \<and> int j = pT_index
             then (if k = dN_idx then 1 else if k = v1_idx then v1
                   else if k = v2_idx then v2 else 0)
             else 0))"
proof -
  have step: "process_line E y_start pT_start dy dpT st line =
          bin_particle E y_start pT_start dy dpT hadron_index p0 px py pz st"
    using rec by (rule particle_record_step)
  have shape: "process_line E y_start pT_start dy dpT st line =
     Inr (st\<lparr>y_spectra_event :=
               (if 0 \<le> rapidity_index \<and> rapidity_index < int (ny E)
                   \<and> cut_pT_min E \<le> pT \<and> pT < cut_pT_max E
                then fill_bin (y_spectra_event st) hadron_index (nat rapidity_index) v1 v2
                else y_spectra_event st),
             pT_spectra_event :=
               (if 0 \<le> pT_index \<and> pT_index < int (npT E) \<and> \<bar>rapidity\<bar> < cut_rap E
                then fill_bin (pT_spectra_event st) hadron_index (nat pT_index) v1 v2
                else pT_spectra_event st)\<rparr>)"
    unfolding step using valid widths
    by (simp add: bin_particle_def Let_def rapidity_def pT_def v1_def v2_def
        rapidity_index_def pT_index_def not_le del: sum_power2_eq_zero_iff)
  have idx: "0 \<le> z \<Longrightarrow> j = nat z \<longleftrightarrow> int j = z" for z
    by auto
  have y_entries: "y_event_entry (i, j, k) (process_line E y_start pT_start dy dpT st line) =
       Inr (y_spectra_event st (i, j, k) +
            (if (0 \<le> rapidity_index \<and> rapidity_index < int (ny E)
                  \<and> cut_pT_min E \<le> pT \<and> pT < cut_pT_max E)
                \<and> i = hadron_index \<and> int j = rapidity_index
             then (if k = dN_idx then 1 else if k = v1_idx then v1
                   else if k = v2_idx then v2 else 0)
             else 0))"
    unfolding shape by (auto simp: y_event_entry_def fill_bin_apply idx)
  have pT_entries: "pT_event_entry (i, j, k) (process_line E y_start pT_start dy dpT st line) =
       Inr (pT_spectra_event st (i, j, k) +
            (if (0 \<le> pT_index \<and> pT_index < int (npT E) \<and> \<bar>rapidity\<bar> < cut_rap E)
                \<and> i = hadron_index \<and> int j = pT_index
             then (if k = dN_idx then 1 else if k = v1_idx then v1
                   else if k = v2_idx then v2 else 0)
             else 0))"
    unfolding shape by (auto simp: pT_event_entry_def fill_bin_apply idx)
  from shape y_entries pT_entries show ?thesis by (intro conjI)
qed

theorem binning_acceptance_witness:
  "is_particle_record smash_env pion_forward 0 2 1 0 0
   \<and> (2 - 0) * (2 + 0) > (0::real) \<and> (1::real)\<^sup>2 + 0\<^sup>2 \<noteq> 0
   \<and> rap_resolution \<noteq> 0 \<and> pT_resolution \<noteq> 0
   \<and> process_line smash_env y_start_default pT_start_default rap_resolution pT_resolution
        init_fstate pion_forward
      = Inr (init_fstate\<lparr>y_spectra_event := fill_bin zeros 0 25 1 1,
                         pT_spectra_event := fill_bin zeros 0 10 1 1\<rparr>)
   \<and> y_event_entry (0, 25, dN_idx)
        (process_line smash_env y_start_default pT_start_default rap_resolution pT_resolution
           init_fstate pion_forward) = Inr 1
   \<and> y_event_entry (0, 25, v1_idx)
        (process_line smash_env y_start_default pT_start_default rap_resolution pT_resolution
           init_fstate pion_forward) = Inr 1
   \<and> y_event_entry (0, 25, v2_idx)
        (process_line smash_env y_start_default pT_start_default rap_resolution pT_resolution
           init_fstate pion_forward) = Inr 1
   \<and> y_event_entry (0, 24, dN_idx)
        (process_line smash_env y_start_default pT_start_default rap_resolution pT_resolution
           init_fstate pion_forward) = Inr 0
   \<and> pT_event_entry (0, 10, dN_idx)
        (process_line smash_env y_start_default pT_start_default rap_resolution pT_resolution
           init_fstate pion_forward) = Inr 1
   \<and> pT_event_entry (0, 10, v1_idx)
        (process_line smash_env y_start_default pT_start_default rap_resolution pT_resolution
           init_fstate pion_forward) = Inr 1
   \<and> pT_event_entry (0, 10, v2_idx)
        (process_line smash_env y_start_default pT_start_default rap_resolution pT_resolution
           init_fstate pion_forward) = Inr 1
   \<and> pT_event_entry (1, 10, dN_idx)
        (process_line smash_env y_start_default pT_start_default rap_resolution pT_resolution
           init_fstate pion_forward) = Inr 0"
proof -
  have a: "(2 - 0) * (2 + 0) > (0::real)" and b: "(1::real)\<^sup>2 + 0\<^sup>2 \<noteq> 0"
    and c: "rap_resolution \<noteq> 0" and d: "pT_resolution \<noteq> 0"
    by (simp_all add: rap_resolution_def pT_resolution_def)
  note inst = binning_acceptance [OF pion_forward_record a b c d,
      where y_start = y_start_default and pT_start = pT_start_default and st = init_fstate]
  note settings = smash_env_fields y_start_default_eq pT_start_default_eq rap_resolution_def
    pT_resolution_def init_fstate_def zeros_def dN_idx_def v1_idx_def v2_idx_def
  have shape: "process_line smash_env y_start_default pT_start_default rap_resolution
      pT_resolution init_fstate pion_forward
      = Inr (init_fstate\<lparr>y_spectra_event := fill_bin zeros 0 25 1 1,
                         pT_spectra_event := fill_bin zeros 0 10 1 1\<rparr>)"
    using inst [THEN conjunct1]
    by (simp add: smash_env_fields y_start_default_eq pT_start_default_eq rap_resolution_def
        pT_resolution_def init_fstate_def)
  have y0: "y_event_entry (0, 25, dN_idx)
        (process_line smash_env y_start_default pT_start_default rap_resolution pT_resolution
           init_fstate pion_forward) = Inr 1"
    using inst [where i = 0 and j = 25 and k = dN_idx, THEN conjunct2, THEN conjunct1] by (simp add: settings)
  have y1: "y_event_entry (0, 25, v1_idx)
        (process_line smash_env y_start_default pT_start_default rap_resolution pT_resolution
           init_fstate pion_forward) = Inr 1"
    using inst [where i = 0 and j = 25 and k = v1_idx, THEN conjunct2, THEN conjunct1] by (simp add: settings)
  have y2: "y_event_entry (0, 25, v2_idx)
        (process_line smash_env y_start_default pT_start_default rap_resolution pT_resolution
           init_fstate pion_forward) = Inr 1"
    using inst [where i = 0 and j = 25 and k = v2_idx, THEN conjunct2, THEN conjunct1] by (simp add: settings)
  have y3: "y_event_entry (0, 24, dN_idx)
        (process_line smash_env y_start_default pT_start_default rap_resolution pT_resolution
           init_fstate pion_forward) = Inr 0"
    using inst [where i = 0 and j = 24 and k = dN_idx, THEN conjunct2, THEN conjunct1] by (simp add: settings)
  have q0: "pT_event_entry (0, 10, dN_idx)
        (process_line smash_env y_start_default pT_start_default rap_resolution pT_resolution
           init_fstate pion_forward) = Inr 1"
    using inst [where i = 0 and j = 10 and k = dN_idx, THEN conjunct2, THEN conjunct2] by (simp add: settings)
  have q1: "pT_event_entry (0, 10, v1_idx)
        (process_line smash_env y_start_default pT_start_default rap_resolution pT_resolution
           init_fstate pion_forward) = Inr 1"
    using inst [where i = 0 and j = 10 and k = v1_idx, THEN conjunct2, THEN conjunct2] by (simp add: settings)
  have q2: "pT_event_entry (0, 10, v2_idx)
        (process_line smash_env y_start_default pT_start_default rap_resolution pT_resolution
           init_fstate pion_forward) = Inr 1"
    using inst [where i = 0 and j = 10 and k = v2_idx, THEN conjunct2, THEN conjunct2] by (simp add: settings)
  have q3: "pT_event_entry (1, 10, dN_idx)
        (process_line smash_env y_start_default pT_start_default rap_resolution pT_resolution
           init_fstate pion_forward) = Inr 0"
    using inst [where i = 1 and j = 10 and k = dN_idx, THEN conjunct2, THEN conjunct2] by (simp add: settings)
  from pion_forward_record a b c d shape y0 y1 y2 y3 q0 q1 q2 q3 show ?thesis
    by (intro conjI)
qed

text \<open>
  The two tests are independent: at the module's settings there are particle lines
  that reach the rapidity histogram only, the pT histogram only, and neither (the
  witness above reaches both).
\<close>

lemma acceptance_one_histogram_only:
  "process_line smash_env y_start_default pT_start_default rap_resolution pT_resolution st
     pion_high_pT
   = Inr (st\<lparr>y_spectra_event := fill_bin (y_spectra_event st) 0 25 1 1\<rparr>)"
  "process_line smash_env y_start_default pT_start_default rap_resolution pT_resolution st
     pion_fast
   = Inr (st\<lparr>pT_spectra_event := fill_bin (pT_spectra_event st) 0 10 1 1\<rparr>)"
  "process_line smash_env y_start_default pT_start_default rap_resolution pT_resolution st
     pion_fast_high_pT = Inr st"
  unfolding more_records [THEN particle_record_step]
  using ln_fast_bounds
  by (simp_all add: bin_particle_def Let_def smash_env_fields y_start_default_eq
      pT_start_default_eq rap_resolution_def pT_resolution_def floor_less_iff)

section \<open>Degenerate particles\<close>

text \<open>
  Claim C3. A particle record whose \<open>(E - pz) * (E + pz)\<close> is not strictly positive, or
  whose \<open>px\<^sup>2 + py\<^sup>2\<close> is zero, is skipped: the line leaves the whole state of the
  file as it was, so neither event histogram receives anything, and the loop goes on
  to the next line instead of stopping.
\<close>

theorem degenerate_particle_skipped:
  assumes "is_particle_record E line hadron_index p0 px py pz"
    and "(p0 - pz) * (p0 + pz) \<le> 0 \<or> px\<^sup>2 + py\<^sup>2 = 0"
  shows "process_line E y_start pT_start dy dpT st line = Inr st"
proof -
  have "bin_particle E y_start pT_start dy dpT hadron_index p0 px py pz st = Inr st"
    using assms(2) by (auto simp: bin_particle_def Let_def)
  then show ?thesis
    by (simp add: particle_record_step [OF assms(1)])
qed

theorem degenerate_particle_skipped_witness:
  "is_particle_record smash_env pion_no_pT 0 2 0 0 0
   \<and> ((2 - 0) * (2 + 0) \<le> (0::real) \<or> (0::real)\<^sup>2 + 0\<^sup>2 = 0)
   \<and> process_line smash_env y_start_default pT_start_default rap_resolution pT_resolution
         init_fstate pion_no_pT = Inr init_fstate"
proof -
  have deg: "(2 - 0) * (2 + 0) \<le> (0::real) \<or> (0::real)\<^sup>2 + 0\<^sup>2 = 0" by simp
  show ?thesis
    using pion_no_pT_record deg degenerate_particle_skipped [OF pion_no_pT_record deg]
    by blast
qed

section \<open>An end label without a start\<close>

text \<open>
  Claim C4. An end-of-event label met while no event is open stops the run at once
  with \<open>sys.exit(1)\<close>: whatever lines and files follow, the file reader halts at that
  line, and the script halts with it before the output file is written (\<open>main\<close>
  returns \<open>Inl\<close>, never the pickled tuple).
\<close>

theorem end_without_start_halts:
  assumes "select_format type = Inr f"
    and "run_files (module_env conv f) y_arr_default pT_arr_default rap_resolution pT_resolution
           init_totals earlier = Inr tot"
    and "process_lines (module_env conv f) y_start_default pT_start_default rap_resolution
           pT_resolution init_fstate pre = Inr st"
    and "\<not> unfinished_event st"
    and "is_end_marker (module_env conv f) line"
  shows "process_lines (module_env conv f) y_start_default pT_start_default rap_resolution
           pT_resolution init_fstate (pre @ line # post) = Inl (SysExit 1)
       \<and> main conv type (earlier @ Some (pre @ line # post) # later) = Inl (SysExit 1)"
proof -
  let ?E = "module_env conv f"
  have halted: "process_line ?E y_start_default pT_start_default rap_resolution pT_resolution st line
      = Inl (SysExit 1)"
    using assms(4,5) by (rule comment_end_closed [rotated])
  have whole: "process_lines ?E y_start_default pT_start_default rap_resolution pT_resolution
      init_fstate (pre @ line # post) = Inl (SysExit 1)"
    by (simp add: process_lines_append assms(3) halted)
  then have "extract_data_oscar ?E (Some (pre @ line # post)) y_arr_default pT_arr_default
      rap_resolution pT_resolution = Inl (SysExit 1)"
    by (simp add: extract_default)
  then have "run_files ?E y_arr_default pT_arr_default rap_resolution pT_resolution init_totals
      (earlier @ Some (pre @ line # post) # later) = Inl (SysExit 1)"
    by (simp add: run_files_append assms(2))
  then have "main conv type (earlier @ Some (pre @ line # post) # later) = Inl (SysExit 1)"
    by (simp add: main_def assms(1))
  with whole show ?thesis by simp
qed

theorem end_without_start_halts_witness:
  "select_format ''SMASH'' = Inr smash_format
   \<and> run_files smash_env y_arr_default pT_arr_default rap_resolution pT_resolution
        init_totals [] = Inr init_totals
   \<and> process_lines smash_env y_start_default pT_start_default rap_resolution pT_resolution
        init_fstate [] = Inr init_fstate
   \<and> \<not> unfinished_event init_fstate
   \<and> is_end_marker smash_env end_line
   \<and> main dec_float64 ''SMASH'' [Some [end_line, start_line, pion_forward, end_line]]
       = Inl (SysExit 1)"
proof -
  have a: "select_format ''SMASH'' = Inr smash_format"
    by (simp add: select_format_def)
  have b: "run_files (module_env dec_float64 smash_format) y_arr_default pT_arr_default
      rap_resolution pT_resolution init_totals [] = Inr init_totals"
    by simp
  have c: "process_lines (module_env dec_float64 smash_format) y_start_default pT_start_default
      rap_resolution pT_resolution init_fstate [] = Inr init_fstate"
    by simp
  have d: "\<not> unfinished_event init_fstate"
    by (simp add: init_fstate_def)
  have e: "is_end_marker (module_env dec_float64 smash_format) end_line"
    by (rule end_line_marker)
  show ?thesis
    using end_without_start_halts [OF a b c d e, of "[start_line, pion_forward, end_line]" "[]"]
      a b c d e
    by (simp add: smash_env_def)
qed

section \<open>A file that cannot be read\<close>

text \<open>
  Claim C5 on two runs over two files, the second of which holds one good event. In the
  first run the first file has a momentum token that is not a number; in the second
  run the first file cannot be opened. Both runs stop at the first file with the
  uncaught exception and write nothing; the second file is never read.
\<close>

theorem failed_file_aborts_run:
  "main dec_float64 ''SMASH''
     [Some [start_line, pion_garbled, end_line], Some [start_line, pion_forward, end_line]]
     = Inl (Uncaught ValueError)
   \<and> main dec_float64 ''SMASH'' [None, Some [start_line, pion_forward, end_line]]
     = Inl (Uncaught OSError)"
  by (simp add: main_def select_format_def extract_default smash_steps pion_garbled_step
      smash_env_def [symmetric])

section \<open>Exit statuses\<close>

text \<open>
  Claim C6, as the script has it. A run that stops without output ends with status 2
  exactly when it stops for run-level emptiness (known format, all files read, no
  event committed), and with status 1 for every other reason: the unknown format, the
  end label without a start, the unknown label and the uncaught exceptions all share
  status 1.
\<close>

theorem exit_status_of_fatal_run:
  assumes "main conv type inputs = Inl e"
  shows "exit_status e = (if run_level_emptiness conv type inputs then 2 else 1)"
proof (cases "select_format type")
  case (Inl e')
  then have "e = SysExit 1"
    using assms by (auto simp: main_def select_format_def split: if_splits)
  then show ?thesis
    by (simp add: run_level_emptiness_def Inl)
next
  case (Inr f)
  show ?thesis
  proof (cases "run_files (module_env conv f) y_arr_default pT_arr_default rap_resolution
      pT_resolution init_totals inputs")
    case (Inl e')
    then have "e = e'" using assms Inr by (simp add: main_def)
    then show ?thesis
      using run_files_status [OF Inl] by (simp add: run_level_emptiness_def Inr Inl)
  next
    case tot: (Inr tot)
    then show ?thesis
      using assms Inr by (auto simp: main_def run_level_emptiness_def split: if_splits)
  qed
qed

theorem exit_status_of_fatal_run_witness:
  "main dec_float64 ''SMASH'' [Some []] = Inl (SysExit 2)
   \<and> run_level_emptiness dec_float64 ''SMASH'' [Some []]
   \<and> exit_status (SysExit 2) = (if run_level_emptiness dec_float64 ''SMASH'' [Some []] then 2 else 1)"
proof -
  have m: "main dec_float64 ''SMASH'' [Some []] = Inl (SysExit 2)"
    by (simp add: main_def select_format_def extract_default init_fstate_def init_totals_def)
  have r: "run_level_emptiness dec_float64 ''SMASH'' [Some []]"
    by (simp add: run_level_emptiness_def select_format_def extract_default init_fstate_def
        init_totals_def)
  show ?thesis
    using exit_status_of_fatal_run [OF m] m r by simp
qed

text \<open>
  Claim C6 as written fails: a run with an unknown format name (a configuration
  error) and a run whose file starts with an end label (a structural parse error)
  stop with the same \<open>sys.exit(1)\<close>.
\<close>

theorem shared_exit_status_counterexample:
  "main dec_float64 ''OSCAR'' [Some [start_line, pion_forward, end_line]] = Inl (SysExit 1)
   \<and> main dec_float64 ''SMASH'' [Some [end_line]] = Inl (SysExit 1)"
  by (simp add: main_def select_format_def extract_default smash_steps init_fstate_def
      smash_env_def [symmetric])

section \<open>Particle lines and the state of the tracker\<close>

lemma bin_particle_flag:
  "bin_particle E ys ps dy dpT h p0 px py pz (st\<lparr>unfinished_event := b\<rparr>) =
     (case bin_particle E ys ps dy dpT h p0 px py pz st of
        Inl e \<Rightarrow> Inl e
      | Inr st' \<Rightarrow> Inr (st'\<lparr>unfinished_event := b\<rparr>))"
  by (simp add: bin_particle_def Let_def)

lemma particle_line_flag:
  "particle_line E ys ps dy dpT (st\<lparr>unfinished_event := b\<rparr>) line =
     (case particle_line E ys ps dy dpT st line of
        Inl e \<Rightarrow> Inl e
      | Inr st' \<Rightarrow> Inr (st'\<lparr>unfinished_event := b\<rparr>))"
  by (simp add: particle_line_def bin_particle_flag split: option.splits list.splits)

text \<open>
  Claim C7, as the script has it. The loop never looks at \<open>unfinished_event\<close> when it
  handles a line that is not a comment: such a line is read as a particle record in
  the same way whether or not an event is open. It halts in one state exactly when it
  halts in the other (with the same error), it changes the event histograms in the
  same way, and it leaves the flag as it found it. So a particle line outside an event
  is not fatal.
\<close>

theorem particle_line_in_any_state:
  assumes "\<not> is_comment line"
  shows "process_line E ys ps dy dpT (st\<lparr>unfinished_event := b\<rparr>) line =
     (case process_line E ys ps dy dpT st line of
        Inl e \<Rightarrow> Inl e
      | Inr st' \<Rightarrow> Inr (st'\<lparr>unfinished_event := b\<rparr>))"
  using assms
  by (auto simp: process_line_def is_comment_def particle_line_flag split: list.splits)

theorem particle_line_in_any_state_witness:
  "\<not> is_comment pion_forward
   \<and> process_line smash_env y_start_default pT_start_default rap_resolution pT_resolution
       (init_fstate\<lparr>unfinished_event := True\<rparr>) pion_forward
     = Inr (init_fstate\<lparr>y_spectra_event := fill_bin zeros 0 25 1 1,
                        pT_spectra_event := fill_bin zeros 0 10 1 1,
                        unfinished_event := True\<rparr>)"
  using particle_line_in_any_state [OF pion_forward_not_comment,
      where E = smash_env and ys = y_start_default and ps = pT_start_default
        and dy = rap_resolution and dpT = pT_resolution and st = init_fstate and b = True]
    pion_forward_not_comment
  by (simp add: pion_forward_step init_fstate_def)

text \<open>
  Claim C7 as written fails. A pion line met before any start label, with no event
  open, does not stop the run: it is binned into the event-scoped rapidity histogram
  (bin 25 of the pion gets count 1), and the first end label that closes a later event
  carries it into the histogram the file returns.
\<close>

theorem particle_outside_event_counterexample:
  "\<not> is_comment pion_forward
   \<and> \<not> unfinished_event init_fstate
   \<and> y_event_entry (0, 25, dN_idx)
        (process_line smash_env y_start_default pT_start_default rap_resolution pT_resolution
           init_fstate pion_forward) = Inr 1
   \<and> returned_y_entry (0, 25, dN_idx)
        (extract_data_oscar smash_env (Some [pion_forward, start_line, end_line])
           y_arr_default pT_arr_default rap_resolution pT_resolution) = Inr 1"
  by (simp add: pion_forward_not_comment init_fstate_def y_event_entry_def returned_y_entry_def
      extract_default smash_steps commit_event_def fill_bin_apply hist_add_def zeros_def)

section \<open>Growth of the committed histograms\<close>

text \<open>
  Claim C8 as written fails for the flow sums. A pion with \<open>px = -1\<close> has
  \<open>v1 = -1\<close>: when its event is committed, the v1-sum of its rapidity bin in the
  file-scoped histogram goes from 0 to -1, and the merge of that file takes the same
  entry of the run-scoped histogram from 0 to -1.
\<close>

theorem flow_sum_decreases_counterexample:
  "y_file_entry (0, 25, v1_idx)
     (process_lines smash_env y_start_default pT_start_default rap_resolution pT_resolution
        init_fstate [start_line, pion_backward]) = Inr 0
   \<and> y_file_entry (0, 25, v1_idx)
     (process_lines smash_env y_start_default pT_start_default rap_resolution pT_resolution
        init_fstate [start_line, pion_backward, end_line]) = Inr (- 1)
   \<and> y_spectra init_totals (0, 25, v1_idx) = 0
   \<and> run_y_entry (0, 25, v1_idx)
     (run_files smash_env y_arr_default pT_arr_default rap_resolution pT_resolution
        init_totals [Some [start_line, pion_backward, end_line]]) = Inr (- 1)"
  by (simp add: y_file_entry_def run_y_entry_def smash_steps extract_backward init_fstate_def
      init_totals_def commit_event_def hist_add_def fill_bin_apply zeros_def
      dN_idx_def v1_idx_def)

text \<open>
  Claim C8, as the script has it. The count entries of the file-scoped and of the
  run-scoped histograms, and the two event counters, never decrease: whatever lines
  are read after a point of the file, and whatever files are merged after a point of
  the run, every count is at least what it was. (The v1 and v2 entries are sums of
  signed numbers and are not covered.)
\<close>

theorem counts_never_decrease:
  assumes "process_lines E ys ps dy dpT init_fstate pre = Inr st"
    and "process_lines E ys ps dy dpT st later_lines = Inr st'"
    and "run_files E ya pa dy dpT init_totals files = Inr tot"
    and "run_files E ya pa dy dpT tot later_files = Inr tot'"
  shows "events_in_file st \<le> events_in_file st'
     \<and> y_spectra_file st (i, j, dN_idx) \<le> y_spectra_file st' (i, j, dN_idx)
     \<and> pT_spectra_file st (i, j, dN_idx) \<le> pT_spectra_file st' (i, j, dN_idx)
     \<and> total_events tot \<le> total_events tot'
     \<and> y_spectra tot (i, j, dN_idx) \<le> y_spectra tot' (i, j, dN_idx)
     \<and> pT_spectra tot (i, j, dN_idx) \<le> pT_spectra tot' (i, j, dN_idx)"
proof -
  have "fstate_ok st"
    using assms(1) init_fstate_ok by (rule process_lines_ok)
  with assms(2) have "file_counts_le st st'"
    by (rule process_lines_counts)
  moreover have "totals_ok tot"
    using assms(3) init_totals_ok by (rule run_files_ok)
  with assms(4) have "run_counts_le tot tot'"
    by (rule run_files_counts)
  ultimately show ?thesis
    by (simp add: file_counts_le_def run_counts_le_def)
qed

theorem counts_never_decrease_witness:
  "process_lines smash_env y_start_default pT_start_default rap_resolution pT_resolution
     init_fstate [start_line, pion_backward]
   = Inr (init_fstate\<lparr>unfinished_event := True,
            y_spectra_event := fill_bin zeros 0 25 (- 1) 1,
            pT_spectra_event := fill_bin zeros 0 10 (- 1) 1\<rparr>)
   \<and> process_lines smash_env y_start_default pT_start_default rap_resolution pT_resolution
       (init_fstate\<lparr>unfinished_event := True,
            y_spectra_event := fill_bin zeros 0 25 (- 1) 1,
            pT_spectra_event := fill_bin zeros 0 10 (- 1) 1\<rparr>) [end_line]
     = Inr (commit_event (init_fstate\<lparr>unfinished_event := True,
            y_spectra_event := fill_bin zeros 0 25 (- 1) 1,
            pT_spectra_event := fill_bin zeros 0 10 (- 1) 1\<rparr>))
   \<and> run_files smash_env y_arr_default pT_arr_default rap_resolution pT_resolution
       init_totals [] = Inr init_totals
   \<and> run_files smash_env y_arr_default pT_arr_default rap_resolution pT_resolution
       init_totals [Some [start_line, pion_backward, end_line]]
     = Inr \<lparr>total_events = 1, y_spectra = fill_bin zeros 0 25 (- 1) 1,
            pT_spectra = fill_bin zeros 0 10 (- 1) 1\<rparr>
   \<and> y_spectra_file init_fstate (0, 25, dN_idx)
       \<le> y_spectra_file (commit_event (init_fstate\<lparr>unfinished_event := True,
            y_spectra_event := fill_bin zeros 0 25 (- 1) 1,
            pT_spectra_event := fill_bin zeros 0 10 (- 1) 1\<rparr>)) (0, 25, dN_idx)
   \<and> y_spectra init_totals (0, 25, dN_idx) \<le> fill_bin zeros 0 25 (- 1) 1 (0, 25, dN_idx)"
proof -
  let ?open = "init_fstate\<lparr>unfinished_event := True,
            y_spectra_event := fill_bin zeros 0 25 (- 1) 1,
            pT_spectra_event := fill_bin zeros 0 10 (- 1) 1\<rparr>"
  have a: "process_lines smash_env y_start_default pT_start_default rap_resolution pT_resolution
     init_fstate [start_line, pion_backward] = Inr ?open"
    by (simp add: smash_steps init_fstate_def)
  have b: "process_lines smash_env y_start_default pT_start_default rap_resolution pT_resolution
     ?open [end_line] = Inr (commit_event ?open)"
    by (simp add: smash_steps)
  have c: "run_files smash_env y_arr_default pT_arr_default rap_resolution pT_resolution
       init_totals [] = Inr init_totals"
    by simp
  have d: "run_files smash_env y_arr_default pT_arr_default rap_resolution pT_resolution
       init_totals [Some [start_line, pion_backward, end_line]]
     = Inr \<lparr>total_events = 1, y_spectra = fill_bin zeros 0 25 (- 1) 1,
            pT_spectra = fill_bin zeros 0 10 (- 1) 1\<rparr>"
    by (simp add: extract_backward init_totals_def)
  show ?thesis
    using counts_never_decrease [OF a b c d, of 0 25] a b c d
    by (simp add: init_fstate_def)
qed

section \<open>Additivity of the run over the files\<close>

text \<open>
  Claim C9. The run over the two files \<open>[A, B]\<close>, started from zero totals, ends with
  the sum of the totals of the run over \<open>A\<close> alone and of the run over \<open>B\<close> alone:
  the committed event counts add up and the histograms add up entry by entry (in
  \<open>real\<close> the sums are exact). The run over the two files stops exactly when one of
  the two single runs stops, with the error of the first that does.
\<close>

theorem run_additivity:
  "run_files E ya pa dy dpT init_totals [A, B] =
     (case run_files E ya pa dy dpT init_totals [A] of
        Inl e \<Rightarrow> Inl e
      | Inr ta \<Rightarrow>
          (case run_files E ya pa dy dpT init_totals [B] of
             Inl e \<Rightarrow> Inl e
           | Inr tb \<Rightarrow> Inr (totals_add ta tb)))"
  by (auto simp: totals_add_def init_totals_def split: sum.splits option.splits prod.splits)

theorem run_additivity_witness:
  "run_events (run_files smash_env y_arr_default pT_arr_default rap_resolution pT_resolution
      init_totals [Some [start_line, pion_forward, end_line]]) = Inr 1
   \<and> run_events (run_files smash_env y_arr_default pT_arr_default rap_resolution pT_resolution
      init_totals [Some [start_line, pion_backward, end_line]]) = Inr 1
   \<and> run_events (run_files smash_env y_arr_default pT_arr_default rap_resolution pT_resolution
      init_totals [Some [start_line, pion_forward, end_line],
                   Some [start_line, pion_backward, end_line]]) = Inr 2
   \<and> run_y_entry (0, 25, dN_idx)
       (run_files smash_env y_arr_default pT_arr_default rap_resolution pT_resolution
          init_totals [Some [start_line, pion_forward, end_line],
                       Some [start_line, pion_backward, end_line]]) = Inr 2
   \<and> run_y_entry (0, 25, v1_idx)
       (run_files smash_env y_arr_default pT_arr_default rap_resolution pT_resolution
          init_totals [Some [start_line, pion_forward, end_line],
                       Some [start_line, pion_backward, end_line]]) = Inr 0"
proof -
  let ?A = "Some [start_line, pion_forward, end_line]"
  let ?B = "Some [start_line, pion_backward, end_line]"
  have a: "run_files smash_env y_arr_default pT_arr_default rap_resolution pT_resolution
      init_totals [?A]
    = Inr \<lparr>total_events = 1, y_spectra = fill_bin zeros 0 25 1 1,
           pT_spectra = fill_bin zeros 0 10 1 1\<rparr>"
    by (simp add: extract_forward extract_backward init_totals_def)
  have b: "run_files smash_env y_arr_default pT_arr_default rap_resolution pT_resolution
      init_totals [?B]
    = Inr \<lparr>total_events = 1, y_spectra = fill_bin zeros 0 25 (- 1) 1,
           pT_spectra = fill_bin zeros 0 10 (- 1) 1\<rparr>"
    by (simp add: extract_forward extract_backward init_totals_def)
  have ab: "run_files smash_env y_arr_default pT_arr_default rap_resolution pT_resolution
      init_totals [?A, ?B]
    = Inr (totals_add \<lparr>total_events = 1, y_spectra = fill_bin zeros 0 25 1 1,
                        pT_spectra = fill_bin zeros 0 10 1 1\<rparr>
                      \<lparr>total_events = 1, y_spectra = fill_bin zeros 0 25 (- 1) 1,
                        pT_spectra = fill_bin zeros 0 10 (- 1) 1\<rparr>)"
    unfolding run_additivity [of smash_env y_arr_default pT_arr_default rap_resolution
        pT_resolution ?A ?B] a b by simp
  show ?thesis
    unfolding a b ab
    by (simp add: run_events_def run_y_entry_def totals_add_def hist_add_def fill_bin_apply
        zeros_def dN_idx_def v1_idx_def)
qed

section \<open>Flow sums are bounded by the counts\<close>

text \<open>
  Claim C10. The two flow moments of a particle are at most 1 in absolute value, and
  so, after any number of lines of a file and after any number of files of the run, in
  every bin of the event-scoped, of the file-scoped and of the run-scoped histograms
  the absolute values of the v1-sum and of the v2-sum are at most the count.
\<close>

theorem flow_sums_bounded_by_count:
  assumes "process_lines E ys ps dy dpT init_fstate lines = Inr st"
    and "run_files E ya pa dy dpT init_totals files = Inr tot"
  shows "\<bar>px / sqrt (px\<^sup>2 + py\<^sup>2)\<bar> \<le> 1 \<and> \<bar>(px\<^sup>2 - py\<^sup>2) / (px\<^sup>2 + py\<^sup>2)\<bar> \<le> 1
     \<and> bin_bounded (y_spectra_event st) i j \<and> bin_bounded (pT_spectra_event st) i j
     \<and> bin_bounded (y_spectra_file st) i j \<and> bin_bounded (pT_spectra_file st) i j
     \<and> bin_bounded (y_spectra tot) i j \<and> bin_bounded (pT_spectra tot) i j"
proof -
  have "fstate_ok st"
    using assms(1) init_fstate_ok by (rule process_lines_ok)
  moreover have "totals_ok tot"
    using assms(2) init_totals_ok by (rule run_files_ok)
  ultimately show ?thesis
    using v1_bound [of px py] v2_bound [of px py]
    by (simp add: fstate_ok_def totals_ok_def flow_bounded_def)
qed

theorem flow_sums_bounded_by_count_witness:
  "process_lines smash_env y_start_default pT_start_default rap_resolution pT_resolution
     init_fstate [start_line, pion_backward]
   = Inr (init_fstate\<lparr>unfinished_event := True,
            y_spectra_event := fill_bin zeros 0 25 (- 1) 1,
            pT_spectra_event := fill_bin zeros 0 10 (- 1) 1\<rparr>)
   \<and> run_files smash_env y_arr_default pT_arr_default rap_resolution pT_resolution
       init_totals [Some [start_line, pion_forward, end_line]]
     = Inr \<lparr>total_events = 1, y_spectra = fill_bin zeros 0 25 1 1,
            pT_spectra = fill_bin zeros 0 10 1 1\<rparr>
   \<and> bin_bounded (fill_bin zeros 0 25 (- 1) 1) 0 25
   \<and> bin_bounded (fill_bin zeros 0 10 1 1) 0 10"
proof -
  let ?open = "init_fstate\<lparr>unfinished_event := True,
            y_spectra_event := fill_bin zeros 0 25 (- 1) 1,
            pT_spectra_event := fill_bin zeros 0 10 (- 1) 1\<rparr>"
  have a: "process_lines smash_env y_start_default pT_start_default rap_resolution pT_resolution
     init_fstate [start_line, pion_backward] = Inr ?open"
    by (simp add: smash_steps init_fstate_def)
  have d: "run_files smash_env y_arr_default pT_arr_default rap_resolution pT_resolution
       init_totals [Some [start_line, pion_forward, end_line]]
     = Inr \<lparr>total_events = 1, y_spectra = fill_bin zeros 0 25 1 1,
            pT_spectra = fill_bin zeros 0 10 1 1\<rparr>"
    by (simp add: extract_forward init_totals_def)
  show ?thesis
    using flow_sums_bounded_by_count [OF a d, of 0 0 0 25]
      flow_sums_bounded_by_count [OF a d, of 0 0 0 10] a d
    by simp
qed

end
